theory Spec2Isabelle
  imports Complex_Main "HOL-Library.AList" "HOL-Library.Char_ord" "HOL-Library.List_Lexorder"
    "HOL-Library.Product_Lexorder"
begin

section \<open>Errors and expressions\<close>

text \<open>
  The Python exceptions that the module can raise. A raise is a value \<open>Inl e\<close>; a result
  that does not come back (a loop that runs forever) is \<open>None\<close>.
\<close>

datatype error =
    RuntimeError string
  | TypeError
  | AssertionError
  | AttributeError
  | NameError
  | ZeroDivisionError
  | NotImplementedError
  | OtherError string

type_synonym 'a partial = "(error + 'a) option"

definition ok :: "'a \<Rightarrow> 'a partial" where
  "ok x = Some (Inr x)"

definition fail :: "error \<Rightarrow> 'a partial" where
  "fail e = Some (Inl e)"

definition bindP :: "'a partial \<Rightarrow> ('a \<Rightarrow> 'b partial) \<Rightarrow> 'b partial" where
  "bindP m f = (case m of None \<Rightarrow> None | Some (Inl e) \<Rightarrow> Some (Inl e) | Some (Inr x) \<Rightarrow> f x)"

text \<open>
  The Python operators that the module applies to expressions of the algebra library:
  the lambdas of \<open>magic_methods\<close>, the \<open>-\<close> of \<open>evaluate_eq\<close> and the \<open>/\<close> of
  \<open>simplify\<close> and \<open>FloorDiv.eval\<close>.
\<close>

datatype sym_op = Add | Sub | Mul | TrueDiv | Mod | Eq | Gt | Lt | Le | Ge

text \<open>
  Expression trees. \<open>Op f a b\<close> is a node of the algebra library, \<open>FloorDiv a b\<close> a node
  of the class \<open>FloorDiv\<close> that the module defines. Every symbol of the module is created
  with \<open>positive=True, integer=True\<close>, so a symbol is its name.
\<close>

datatype expr =
    Integer int
  | Symbol string
  | BooleanTrue
  | BooleanFalse
  | Op sym_op expr expr
  | FloorDiv expr expr

text \<open>
  The algebra library is not part of the module. Its algorithms are parameters of the model:
  \<open>build f a b\<close> is the expression that the Python operator \<open>f\<close> returns on \<open>a\<close> and \<open>b\<close>
  (with the library's automatic evaluation), \<open>expand\<close>, \<open>sympy_gcd\<close> (the function \<open>sympy.gcd\<close>), \<open>simplify_expr\<close>
  (the function \<open>sympy.simplify\<close>), \<open>solve\<close> (which may raise) and \<open>str\<close> are the functions of
  the same names.
\<close>

record sympy =
  build :: "sym_op \<Rightarrow> expr \<Rightarrow> expr \<Rightarrow> expr"
  expand :: "expr \<Rightarrow> expr"
  sympy_gcd :: "expr \<Rightarrow> expr \<Rightarrow> expr"
  simplify_expr :: "expr \<Rightarrow> expr"
  solve :: "expr \<Rightarrow> expr \<Rightarrow> error + expr list"
  str :: "expr \<Rightarrow> string"

text \<open>
  Applying a Python operator to two expressions. The library raises \<open>ZeroDivisionError\<close>
  for \<open>a % b\<close> with a zero modulus (also when a \<open>Mod\<close> node is built again from new
  arguments); the other operators return an expression.
\<close>

definition apply_op :: "sympy \<Rightarrow> sym_op \<Rightarrow> expr \<Rightarrow> expr \<Rightarrow> expr partial" where
  "apply_op S f a b =
     (if f = Mod \<and> b = Integer 0 then Some (Inl ZeroDivisionError)
      else Some (Inr (build S f a b)))"

section \<open>Loading the module\<close>

text \<open>
  The statements of the module that depend on the algebra library being installed: the
  guarded import sets \<open>HAS_SYMPY\<close>, and the statement \<open>class FloorDiv(sympy.Function)\<close>,
  which is not guarded, reads the name \<open>sympy\<close>. The result is the value of \<open>HAS_SYMPY\<close>
  in the loaded module.
\<close>

definition import_module :: "bool \<Rightarrow> error + bool" where
  "import_module sympy_installed =
     (let HAS_SYMPY = sympy_installed
      in if \<not> sympy_installed then Inl NameError else Inr HAS_SYMPY)"

section \<open>FloorDiv\<close>

text \<open>
  \<open>base // divisor\<close> on two \<open>Integer\<close>s: Python's floor division of their values, which
  raises on a zero divisor.
\<close>

definition Integer_floordiv :: "int \<Rightarrow> int \<Rightarrow> expr partial" where
  "Integer_floordiv a b = (if b = 0 then fail ZeroDivisionError else ok (Integer (a div b)))"

text \<open>
  Constructing \<open>FloorDiv(base, divisor)\<close> runs \<open>FloorDiv.eval\<close>; where \<open>eval\<close> returns
  nothing the node is kept as it is. The two last branches construct a \<open>FloorDiv\<close> again,
  which is the recursion.
\<close>

partial_function (option) FloorDiv_new :: "sympy \<Rightarrow> expr \<Rightarrow> expr \<Rightarrow> expr partial" where
  "FloorDiv_new S base divisor =
     (if base = Integer 0 then Some (Inr (Integer 0))
      else if divisor = Integer 1 then Some (Inr base)
      else (case (base, divisor) of
          (Integer a, Integer b) \<Rightarrow> Integer_floordiv a b
        | (FloorDiv b0 d0, _) \<Rightarrow> FloorDiv_new S b0 (build S Mul d0 divisor)
        | _ \<Rightarrow>
          (if sympy_gcd S base divisor \<noteq> Integer 1
           then FloorDiv_new S (simplify_expr S (build S TrueDiv base (sympy_gcd S base divisor)))
                  (simplify_expr S (build S TrueDiv divisor (sympy_gcd S base divisor)))
           else Some (Inr (FloorDiv base divisor)))))"

section \<open>The dispatch-mode slot\<close>

text \<open>
  A mode object is identified by a number. The module-level variable
  \<open>SYM_FUNCTION_MODE\<close> holds the active mode or \<open>None\<close>; \<open>inner_mode m\<close> is the attribute
  \<open>inner\<close> of the mode \<open>m\<close>, \<open>None\<close> while the object has no such attribute
  (\<open>hasattr(self, "inner")\<close> is false). The record is extensible: what else a handler can
  change lives in its \<open>more\<close> part. The message of \<open>__enter__\<close> starts with \<open>str(self)\<close>,
  which is the parameter \<open>str_of\<close>.
\<close>

type_synonym mode = nat

record dispatch =
  SYM_FUNCTION_MODE :: "mode option"
  inner_mode :: "mode \<Rightarrow> mode option option"

definition already_used :: string where
  "already_used = '' has already been used as a mode. Please use a fresh version''"

definition enter ::
  "(mode \<Rightarrow> string) \<Rightarrow> mode \<Rightarrow> 'w dispatch_scheme \<Rightarrow> (error + mode) \<times> 'w dispatch_scheme" where
  "enter str_of self st =
     (let old = SYM_FUNCTION_MODE st in
      if inner_mode st self \<noteq> None then (Inl (RuntimeError (str_of self @ already_used)), st)
      else (Inr self, st\<lparr>inner_mode := (inner_mode st)(self \<mapsto> old), SYM_FUNCTION_MODE := Some self\<rparr>))"

definition exit :: "mode \<Rightarrow> 'w dispatch_scheme \<Rightarrow> (error + unit) \<times> 'w dispatch_scheme" where
  "exit self st =
     (case inner_mode st self of
        None \<Rightarrow> (Inl AttributeError, st)
      | Some i \<Rightarrow> (Inr (), st\<lparr>SYM_FUNCTION_MODE := i\<rparr>))"

section \<open>Symbolic scalars\<close>

record PySymInt =
  expr :: expr
  shape_env :: nat
  constant_of :: "int option"

datatype operand = SymOperand PySymInt | IntOperand int

datatype pyvalue = VSymInt PySymInt | VSymFloat PySymInt | VInt int | VNone

datatype func = Operator string | Sym_float

text \<open>
  The handler \<open>__sym_dispatch__\<close> of a mode is code of the caller: a parameter \<open>H\<close>, which
  gets the mode, the function, the arguments and the state, and returns (or raises) with a
  new state, or does not return.
\<close>

type_synonym 'w handlers =
  "mode \<Rightarrow> func \<Rightarrow> operand list \<Rightarrow> 'w dispatch_scheme \<Rightarrow> ((error + pyvalue) \<times> 'w dispatch_scheme) option"

definition handle_sym_dispatch ::
  "'w handlers \<Rightarrow> func \<Rightarrow> operand list \<Rightarrow> 'w dispatch_scheme \<Rightarrow> ((error + pyvalue) \<times> 'w dispatch_scheme) option" where
  "handle_sym_dispatch H fn args st =
     (case SYM_FUNCTION_MODE st of
        None \<Rightarrow> Some (Inl AssertionError, st)
      | Some mode \<Rightarrow>
         (case inner_mode st mode of
            None \<Rightarrow> Some (Inl AttributeError, st)
          | Some i \<Rightarrow>
             (case H mode fn args (st\<lparr>SYM_FUNCTION_MODE := i\<rparr>) of
                None \<Rightarrow> None
              | Some (r, st') \<Rightarrow> Some (r, st'\<lparr>SYM_FUNCTION_MODE := Some mode\<rparr>))))"

definition int_error :: string where
  "int_error = ''Trying to extract a concrete int out of a symbolic int''"

definition PySymInt_int :: "PySymInt \<Rightarrow> error + int" where
  "PySymInt_int self = Inl (RuntimeError int_error)"

definition sym_float_method ::
  "'w handlers \<Rightarrow> PySymInt \<Rightarrow> 'w dispatch_scheme \<Rightarrow> ((error + pyvalue) \<times> 'w dispatch_scheme) option" where
  "sym_float_method H self st =
     (if SYM_FUNCTION_MODE st \<noteq> None then handle_sym_dispatch H Sym_float [SymOperand self] st
      else Some (Inr (VSymFloat \<lparr>expr = expr self, shape_env = shape_env self, constant_of = None\<rparr>), st))"

subsection \<open>The operator methods\<close>

type_synonym builder = "sympy \<Rightarrow> expr \<Rightarrow> expr \<Rightarrow> expr partial"

definition native :: "sym_op \<Rightarrow> builder" where
  "native f S a b = apply_op S f a b"



definition unwrap :: "operand \<Rightarrow> expr" where
  "unwrap other = (case other of SymOperand p \<Rightarrow> expr p | IntOperand n \<Rightarrow> Integer n)"

type_synonym 'w bound_method =
  "PySymInt \<Rightarrow> operand \<Rightarrow> 'w dispatch_scheme \<Rightarrow> ((error + pyvalue) \<times> 'w dispatch_scheme) option"

definition magic_impl :: "sympy \<Rightarrow> 'w handlers \<Rightarrow> string \<Rightarrow> builder \<Rightarrow> 'w bound_method" where
  "magic_impl S H method_name fn self other st =
     (if SYM_FUNCTION_MODE st \<noteq> None
      then handle_sym_dispatch H (Operator method_name) [SymOperand self, other] st
      else (case fn S (expr self) (unwrap other) of
              None \<Rightarrow> None
            | Some (Inl e) \<Rightarrow> Some (Inl e, st)
            | Some (Inr r) \<Rightarrow>
                Some (Inr (VSymInt \<lparr>expr = r, shape_env = shape_env self, constant_of = None\<rparr>), st)))"




section \<open>The shape environment\<close>

text \<open>
  A \<open>functools.lru_cache\<close> around a method: the key of the last call (the pair that
  \<open>_get_key\<close> returned, \<open>None\<close> before the first call) and the cached results.
\<close>

record ('k, 'r) lru_state =
  prior_key :: "(nat \<times> nat) option"
  entries :: "('k \<times> 'r) list"

text \<open>
  The fields of \<open>ShapeEnv\<close>: dictionaries are association lists in insertion order, the
  set \<open>divisible\<close> is a list without duplicates (its order stands for the iteration order
  of the set). \<open>env_id\<close> is the identity of the object, which a \<open>PySymInt\<close> refers to. The
  other fields are the caches that the decorators keep for this object.
\<close>

record ShapeEnv =
  guards :: "(expr \<times> expr) list"
  var_to_val :: "(expr \<times> int) list"
  replacements :: "(expr \<times> expr) list"
  divisible :: "expr list"
  env_id :: nat
  size_hint_cache :: "(expr \<times> expr) list"
  static_cache :: "(expr, expr option) lru_state"
  divisible_cache :: "(unit, unit) lru_state"
  simplify_cache :: "(expr, expr) lru_state"

definition ShapeEnv_init :: "nat \<Rightarrow> ShapeEnv" where
  "ShapeEnv_init i =
     \<lparr>guards = [], var_to_val = [], replacements = [], divisible = [], env_id = i,
      size_hint_cache = [],
      static_cache = \<lparr>prior_key = None, entries = []\<rparr>,
      divisible_cache = \<lparr>prior_key = None, entries = []\<rparr>,
      simplify_cache = \<lparr>prior_key = None, entries = []\<rparr>\<rparr>"

definition get_key :: "ShapeEnv \<Rightarrow> nat \<times> nat" where
  "get_key self = (length (replacements self), length (divisible self))"

subsection \<open>Creating symbols\<close>

text \<open>Python's \<open>str\<close> of a natural number, for the f-strings that name the symbols.\<close>

definition digits :: string where
  "digits = ''0123456789''"

function str_nat :: "nat \<Rightarrow> string" where
  "str_nat n = (if n < 10 then [digits ! n] else str_nat (n div 10) @ [digits ! (n mod 10)])"
  by pat_completeness auto
termination
  by (relation "measure id") auto

datatype symint = Literal int | SymIntNode PySymInt

definition need_sympy :: string where
  "need_sympy = ''Need sympy installed to create symbolic shapes''"

text \<open>
  \<open>HAS_SYMPY\<close> is the module constant set by the import; \<open>new_symint\<close> of the C++ binding
  wraps the \<open>PySymInt\<close> (the constructor \<open>SymIntNode\<close>).
\<close>

definition create_symint ::
  "bool \<Rightarrow> string \<Rightarrow> int \<Rightarrow> ShapeEnv \<Rightarrow> (error + symint) \<times> ShapeEnv" where
  "create_symint HAS_SYMPY name val self =
     (if \<not> HAS_SYMPY then (Inl (RuntimeError need_sympy), self)
      else if val = 0 \<or> val = 1 then (Inr (Literal val), self)
      else (Inr (SymIntNode \<lparr>expr = Symbol name, shape_env = env_id self, constant_of = None\<rparr>),
            self\<lparr>var_to_val := AList.update (Symbol name) val (var_to_val self)\<rparr>))"

record tensor =
  tensor_id :: nat
  shape :: "int list"

datatype 'a leaf = Tensor tensor | NonTensor 'a

datatype 'a pytree = Leaf "'a leaf" | Node "'a pytree list"

text \<open>
  Modelled from the spec: \<open>pytree.tree_flatten\<close> of \<open>torch.utils._pytree\<close>, which is not
  among the sources. The spec says that the nested structure is flattened and that every
  tensor-typed leaf is then visited: the leaves from left to right.
\<close>

fun tree_flatten :: "'a pytree \<Rightarrow> 'a leaf list" where
  "tree_flatten (Leaf x) = [x]"
| "tree_flatten (Node ts) = concat (map tree_flatten ts)"

datatype 'a shape_out = Shape "symint list" | Passthrough 'a

definition symbol_name :: "nat \<Rightarrow> nat \<Rightarrow> string" where
  "symbol_name arg_cnt idx = ''s_'' @ str_nat arg_cnt @ ''['' @ str_nat idx @ '']''"

text \<open>The list comprehension of \<open>create_shape\<close> over \<open>enumerate(x.shape)\<close>.\<close>

fun create_dims ::
  "bool \<Rightarrow> nat \<Rightarrow> nat \<Rightarrow> int list \<Rightarrow> ShapeEnv \<Rightarrow> (error + symint list) \<times> ShapeEnv" where
  "create_dims has arg_cnt idx [] self = (Inr [], self)"
| "create_dims has arg_cnt idx (sz # szs) self =
     (case create_symint has (symbol_name arg_cnt idx) sz self of
        (Inl e, self') \<Rightarrow> (Inl e, self')
      | (Inr s, self') \<Rightarrow>
          (case create_dims has arg_cnt (Suc idx) szs self' of
             (Inl e, self'') \<Rightarrow> (Inl e, self'')
           | (Inr ss, self'') \<Rightarrow> (Inr (s # ss), self'')))"

text \<open>\<open>create_shape\<close> returns its result and the new value of the counter \<open>arg_cnt\<close>.\<close>

definition create_shape ::
  "bool \<Rightarrow> nat \<Rightarrow> 'a leaf \<Rightarrow> ShapeEnv \<Rightarrow> (error + 'a shape_out \<times> nat) \<times> ShapeEnv" where
  "create_shape has arg_cnt x self =
     (case x of
        NonTensor v \<Rightarrow> (Inr (Passthrough v, arg_cnt), self)
      | Tensor t \<Rightarrow>
          (case create_dims has arg_cnt 0 (shape t) self of
             (Inl e, self') \<Rightarrow> (Inl e, self')
           | (Inr out_shape, self') \<Rightarrow> (Inr (Shape out_shape, arg_cnt + 1), self')))"

fun map_create_shape ::
  "bool \<Rightarrow> nat \<Rightarrow> 'a leaf list \<Rightarrow> ShapeEnv \<Rightarrow> (error + 'a shape_out list) \<times> ShapeEnv" where
  "map_create_shape has arg_cnt [] self = (Inr [], self)"
| "map_create_shape has arg_cnt (x # xs) self =
     (case create_shape has arg_cnt x self of
        (Inl e, self') \<Rightarrow> (Inl e, self')
      | (Inr (out, arg_cnt'), self') \<Rightarrow>
          (case map_create_shape has arg_cnt' xs self' of
             (Inl e, self'') \<Rightarrow> (Inl e, self'')
           | (Inr outs, self'') \<Rightarrow> (Inr (out # outs), self'')))"

definition create_shapes_for_args ::
  "bool \<Rightarrow> 'a pytree \<Rightarrow> ShapeEnv \<Rightarrow> (error + 'a shape_out list) \<times> ShapeEnv" where
  "create_shapes_for_args has args self = map_create_shape has 0 (tree_flatten args) self"

text \<open>
  A call of \<open>create_shapes_for_args\<close> with keyword arguments. The signature of the method
  is \<open>(self, args)\<close>: Python raises \<open>TypeError\<close> for any keyword argument, before the body
  runs.
\<close>

definition call_create_shapes_for_args ::
  "bool \<Rightarrow> 'a pytree \<Rightarrow> (string \<times> (expr \<times> expr) list) list \<Rightarrow> ShapeEnv
     \<Rightarrow> (error + 'a shape_out list) \<times> ShapeEnv" where
  "call_create_shapes_for_args has args kwargs self =
     (if kwargs \<noteq> [] then (Inl TypeError, self) else create_shapes_for_args has args self)"

subsection \<open>Traversals of expressions\<close>

text \<open>
  The attributes and methods of expressions that the module reads. \<open>free_symbols\<close> and
  \<open>atoms\<close> are sets in Python; they are lists without duplicates here.
\<close>

fun free_symbols :: "expr \<Rightarrow> expr list" where
  "free_symbols (Symbol n) = [Symbol n]"
| "free_symbols (Op f a b) = remdups (free_symbols a @ free_symbols b)"
| "free_symbols (FloorDiv a b) = remdups (free_symbols a @ free_symbols b)"
| "free_symbols e = []"

fun subterms :: "expr \<Rightarrow> expr list" where
  "subterms (Op f a b) = Op f a b # subterms a @ subterms b"
| "subterms (FloorDiv a b) = FloorDiv a b # subterms a @ subterms b"
| "subterms e = [e]"

definition is_FloorDiv :: "expr \<Rightarrow> bool" where
  "is_FloorDiv e = (case e of FloorDiv a b \<Rightarrow> True | _ \<Rightarrow> False)"

definition is_Mod :: "expr \<Rightarrow> bool" where
  "is_Mod e = (case e of Op Mod a b \<Rightarrow> True | _ \<Rightarrow> False)"

definition atoms :: "(expr \<Rightarrow> bool) \<Rightarrow> expr \<Rightarrow> expr list" where
  "atoms P e = remdups (filter P (subterms e))"

text \<open>
  \<open>xreplace\<close>: an expression that is a key of the rule is replaced; otherwise the arguments
  are replaced and, when one of them changed, the node is built again from the new
  arguments, which for a \<open>FloorDiv\<close> node runs \<open>FloorDiv.eval\<close>. The second component says
  whether anything changed.
\<close>

fun xreplace_aux :: "sympy \<Rightarrow> (expr \<times> expr) list \<Rightarrow> expr \<Rightarrow> (expr \<times> bool) partial" where
  "xreplace_aux S rule (Op f a b) =
     (case map_of rule (Op f a b) of
        Some r \<Rightarrow> ok (r, True)
      | None \<Rightarrow>
          bindP (xreplace_aux S rule a) (\<lambda>ra.
          bindP (xreplace_aux S rule b) (\<lambda>rb.
            if snd ra \<or> snd rb
            then bindP (apply_op S f (fst ra) (fst rb)) (\<lambda>r. ok (r, True))
            else ok (Op f a b, False))))"
| "xreplace_aux S rule (FloorDiv a b) =
     (case map_of rule (FloorDiv a b) of
        Some r \<Rightarrow> ok (r, True)
      | None \<Rightarrow>
          bindP (xreplace_aux S rule a) (\<lambda>ra.
          bindP (xreplace_aux S rule b) (\<lambda>rb.
            if snd ra \<or> snd rb
            then bindP (FloorDiv_new S (fst ra) (fst rb)) (\<lambda>r. ok (r, True))
            else ok (FloorDiv a b, False))))"
| "xreplace_aux S rule e =
     (case map_of rule e of Some r \<Rightarrow> ok (r, True) | None \<Rightarrow> ok (e, False))"

definition xreplace :: "sympy \<Rightarrow> (expr \<times> expr) list \<Rightarrow> expr \<Rightarrow> expr partial" where
  "xreplace S rule e = bindP (xreplace_aux S rule e) (\<lambda>r. ok (fst r))"

text \<open>
  \<open>isinstance(e, sympy.Expr)\<close>: numbers, symbols, arithmetic and \<open>FloorDiv\<close> nodes are
  expressions, the Boolean constants and the relations are not.
\<close>

definition is_relation :: "sym_op \<Rightarrow> bool" where
  "is_relation f = (f \<in> {Eq, Gt, Lt, Le, Ge})"

definition is_Expr :: "expr \<Rightarrow> bool" where
  "is_Expr e = (case e of BooleanTrue \<Rightarrow> False | BooleanFalse \<Rightarrow> False
                | Op f a b \<Rightarrow> \<not> is_relation f | _ \<Rightarrow> True)"

text \<open>
  Python's truth value of an expression: the Boolean constants and zero are what they are,
  a relation that did not evaluate raises \<open>TypeError\<close>, everything else is true.
\<close>

definition truth :: "expr \<Rightarrow> error + bool" where
  "truth e = (case e of BooleanTrue \<Rightarrow> Inr True | BooleanFalse \<Rightarrow> Inr False
              | Integer n \<Rightarrow> Inr (n \<noteq> 0)
              | Op f a b \<Rightarrow> (if is_relation f then Inl TypeError else Inr True)
              | _ \<Rightarrow> Inr True)"

subsection \<open>Methods of the environment as state transformers\<close>

type_synonym 'a M = "ShapeEnv \<Rightarrow> ((error + 'a) \<times> ShapeEnv) option"

definition ret :: "'a \<Rightarrow> 'a M" where
  "ret x = (\<lambda>self. Some (Inr x, self))"

definition raise :: "error \<Rightarrow> 'a M" where
  "raise e = (\<lambda>self. Some (Inl e, self))"

definition bind :: "'a M \<Rightarrow> ('a \<Rightarrow> 'b M) \<Rightarrow> 'b M" where
  "bind m f = (\<lambda>self. case m self of
                 None \<Rightarrow> None
               | Some (Inl e, self') \<Rightarrow> Some (Inl e, self')
               | Some (Inr x, self') \<Rightarrow> f x self')"

definition modify :: "(ShapeEnv \<Rightarrow> ShapeEnv) \<Rightarrow> unit M" where
  "modify g = (\<lambda>self. Some (Inr (), g self))"

definition lift :: "'a partial \<Rightarrow> 'a M" where
  "lift p = (\<lambda>self. case p of None \<Rightarrow> None | Some r \<Rightarrow> Some (r, self))"

definition lift_sum :: "error + 'a \<Rightarrow> 'a M" where
  "lift_sum r = (\<lambda>self. Some (r, self))"

fun mapM :: "('a \<Rightarrow> 'b M) \<Rightarrow> 'a list \<Rightarrow> 'b list M" where
  "mapM f [] = ret []"
| "mapM f (x # xs) = bind (f x) (\<lambda>y. bind (mapM f xs) (\<lambda>ys. ret (y # ys)))"

text \<open>
  The decorator \<open>_lru_cache\<close>: when the key of the environment differs from the key of the
  last call the cache is cleared; then the cache answers, or the method runs and its result
  (not an exception) is stored. \<open>cache\<close> and \<open>cache_update\<close> select the cache of the method.
\<close>

definition lru_wrapper ::
  "(ShapeEnv \<Rightarrow> ('k, 'r) lru_state) \<Rightarrow>
   ((('k, 'r) lru_state \<Rightarrow> ('k, 'r) lru_state) \<Rightarrow> ShapeEnv \<Rightarrow> ShapeEnv) \<Rightarrow>
   ('k \<Rightarrow> 'r M) \<Rightarrow> 'k \<Rightarrow> 'r M" where
  "lru_wrapper cache cache_update fn k self =
     (let self1 = (if prior_key (cache self) \<noteq> Some (get_key self)
                   then cache_update (\<lambda>c. c\<lparr>prior_key := Some (get_key self), entries := []\<rparr>) self
                   else self)
      in case map_of (entries (cache self1)) k of
           Some r \<Rightarrow> Some (Inr r, self1)
         | None \<Rightarrow>
             (case fn k self1 of
                None \<Rightarrow> None
              | Some (Inl e, self2) \<Rightarrow> Some (Inl e, self2)
              | Some (Inr r, self2) \<Rightarrow>
                  Some (Inr r, cache_update (\<lambda>c. c\<lparr>entries := (k, r) # entries c\<rparr>) self2)))"

subsection \<open>find and replace\<close>

text \<open>The two loops of \<open>find\<close>; either runs forever on a cycle of \<open>replacements\<close>.\<close>

partial_function (option) find_root :: "(expr \<times> expr) list \<Rightarrow> expr \<Rightarrow> expr option" where
  "find_root repl a = (case map_of repl a of Some b \<Rightarrow> find_root repl b | None \<Rightarrow> Some a)"

partial_function (option) find_compress ::
  "expr \<Rightarrow> (expr \<times> expr) list \<Rightarrow> expr \<Rightarrow> (expr \<times> expr) list option" where
  "find_compress a repl acopy =
     (case map_of repl acopy of
        Some nxt \<Rightarrow> find_compress a (AList.update acopy a repl) nxt
      | None \<Rightarrow> Some repl)"

definition find_rep :: "expr \<Rightarrow> expr M" where
  "find_rep a self =
     (case find_root (replacements self) a of
        None \<Rightarrow> None
      | Some r \<Rightarrow>
          (case find_compress r (replacements self) a of
             None \<Rightarrow> None
           | Some repl \<Rightarrow> Some (Inr r, self\<lparr>replacements := repl\<rparr>)))"

definition replace :: "sympy \<Rightarrow> expr \<Rightarrow> expr M" where
  "replace S e =
     bind (mapM (\<lambda>s. bind (find_rep s) (\<lambda>r. ret (s, r))) (free_symbols e)) (\<lambda>rule.
       lift (xreplace S rule e))"

subsection \<open>The evaluator\<close>

text \<open>
  \<open>size_hint\<close> is under \<open>functools.lru_cache\<close> with its default size of 128: a hit moves
  the entry to the front, a miss stores the result in front and drops the oldest entries.
\<close>

definition size_hint_body :: "sympy \<Rightarrow> expr \<Rightarrow> expr M" where
  "size_hint_body S e =
     (\<lambda>self. bind (lift (xreplace S (map (\<lambda>kv. (fst kv, Integer (snd kv))) (var_to_val self))
                           (expand S e))) (\<lambda>result_expr.
        if \<not> is_Expr result_expr \<or> length (free_symbols result_expr) = 0
        then ret result_expr else raise AssertionError) self)"

definition size_hint :: "sympy \<Rightarrow> expr \<Rightarrow> expr M" where
  "size_hint S e self =
     (case map_of (size_hint_cache self) e of
        Some r \<Rightarrow>
          Some (Inr r, self\<lparr>size_hint_cache := (e, r) # AList.delete e (size_hint_cache self)\<rparr>)
      | None \<Rightarrow>
          (case size_hint_body S e self of
             None \<Rightarrow> None
           | Some (Inl err, self') \<Rightarrow> Some (Inl err, self')
           | Some (Inr r, self') \<Rightarrow>
               Some (Inr r, self'\<lparr>size_hint_cache := take 128 ((e, r) # size_hint_cache self')\<rparr>)))"

definition placeholder :: "sympy \<Rightarrow> nat \<Rightarrow> expr" where
  "placeholder S idx = build S Add (Symbol (''shape_'' @ str_nat idx)) (Integer 1)"

definition maybe_evaluate_static_body :: "sympy \<Rightarrow> expr \<Rightarrow> expr option partial" where
  "maybe_evaluate_static_body S e =
     (let symbols = free_symbols e;
          new_shape_env = map (\<lambda>ik. (snd ik, placeholder S (fst ik))) (enumerate 0 symbols)
      in bindP (xreplace S new_shape_env e) (\<lambda>new_expr.
           if length (free_symbols (expand S new_expr)) = 0
           then ok (Some (expand S new_expr)) else ok None))"

definition maybe_evaluate_static :: "sympy \<Rightarrow> expr \<Rightarrow> expr option M" where
  "maybe_evaluate_static S =
     lru_wrapper static_cache static_cache_update (\<lambda>e. lift (maybe_evaluate_static_body S e))"

definition set_add :: "'a \<Rightarrow> 'a list \<Rightarrow> 'a list" where
  "set_add x xs = (if x \<in> set xs then xs else xs @ [x])"

fun update_divisible_loop :: "sympy \<Rightarrow> expr list \<Rightarrow> expr list \<Rightarrow> expr list M" where
  "update_divisible_loop S new_divisible [] = ret new_divisible"
| "update_divisible_loop S new_divisible (a # as) =
     bind (replace S a) (\<lambda>r.
       update_divisible_loop S
         (if length (free_symbols (expand S r)) > 0 then set_add (expand S r) new_divisible
          else new_divisible) as)"

definition update_divisible_body :: "sympy \<Rightarrow> unit M" where
  "update_divisible_body S =
     (\<lambda>self. bind (update_divisible_loop S [] (divisible self)) (\<lambda>new_divisible.
        modify (\<lambda>self'. self'\<lparr>divisible := new_divisible\<rparr>)) self)"

definition update_divisible :: "sympy \<Rightarrow> unit M" where
  "update_divisible S =
     lru_wrapper divisible_cache divisible_cache_update (\<lambda>u. update_divisible_body S) ()"

text \<open>The loop of \<open>simplify\<close> over the \<open>FloorDiv\<close> atoms of the expanded expression.\<close>

fun simplify_loop :: "sympy \<Rightarrow> expr \<Rightarrow> expr list \<Rightarrow> expr M" where
  "simplify_loop S e [] = ret e"
| "simplify_loop S e (atom # as) =
     (\<lambda>self.
        (if atom \<in> set (divisible self)
         then (case atom of
                 FloorDiv a b \<Rightarrow>
                   bind (lift (xreplace S [(atom, build S TrueDiv a b)] e)) (\<lambda>e'.
                     simplify_loop S e' as)
               | _ \<Rightarrow> raise AttributeError)
         else simplify_loop S e as) self)"

definition simplify_body :: "sympy \<Rightarrow> expr \<Rightarrow> expr M" where
  "simplify_body S e =
     bind (replace S e) (\<lambda>r.
       if length (atoms is_FloorDiv (expand S r)) > 0
       then bind (update_divisible S) (\<lambda>u.
            bind (simplify_loop S (expand S r) (atoms is_FloorDiv (expand S r))) (\<lambda>e'.
              ret (expand S e')))
       else ret (expand S r))"

definition simplify :: "sympy \<Rightarrow> expr \<Rightarrow> expr M" where
  "simplify S = lru_wrapper simplify_cache simplify_cache_update (simplify_body S)"

text \<open>
  The key of \<open>sorted\<close> in \<open>evaluate_eq\<close>: the negated size hint and the name of the
  symbol. Tuples and strings compare lexicographically.
\<close>

definition negate :: "expr \<Rightarrow> error + int" where
  "negate h = (case h of Integer v \<Rightarrow> Inr (- v) | _ \<Rightarrow> Inl TypeError)"

definition name_of :: "expr \<Rightarrow> string" where
  "name_of x = (case x of Symbol n \<Rightarrow> n | _ \<Rightarrow> [])"

definition sort_key_of :: "sympy \<Rightarrow> expr \<Rightarrow> ((int \<times> string) \<times> expr) M" where
  "sort_key_of S x =
     bind (size_hint S x) (\<lambda>h. bind (lift_sum (negate h)) (\<lambda>k. ret ((k, name_of x), x)))"

definition sorted_free :: "sympy \<Rightarrow> expr list \<Rightarrow> expr list M" where
  "sorted_free S free = bind (mapM (sort_key_of S) free) (\<lambda>keyed. ret (map snd (sort_key fst keyed)))"

definition eq_sides :: "expr \<Rightarrow> error + expr \<times> expr" where
  "eq_sides e = (case e of Op Eq l r \<Rightarrow> Inr (l, r) | _ \<Rightarrow> Inl AttributeError)"

text \<open>The handler of \<open>NotImplementedError\<close> in \<open>evaluate_eq\<close>.\<close>

definition mod_fallback :: "sympy \<Rightarrow> expr \<Rightarrow> expr \<Rightarrow> expr \<Rightarrow> unit M" where
  "mod_fallback S e lhs rhs =
     (if length (atoms is_Mod e) = 1
      then (case atoms is_Mod e ! 0 of
              Op f a b \<Rightarrow>
                (case solve S (build S Sub lhs rhs) (Op f a b) of
                   Inr solutions \<Rightarrow>
                     (if length solutions = 1 \<and> solutions ! 0 = Integer 0
                      then bind (lift (FloorDiv_new S a b)) (\<lambda>fd.
                             modify (\<lambda>self. self\<lparr>divisible := set_add fd (divisible self)\<rparr>))
                      else ret ())
                 | Inl NotImplementedError \<Rightarrow> ret ()
                 | Inl err \<Rightarrow> raise err)
            | _ \<Rightarrow> raise AttributeError)
      else ret ())"

text \<open>The \<open>try\<close> block of \<open>evaluate_eq\<close>, with \<open>free\<close> already sorted.\<close>

definition solve_for :: "sympy \<Rightarrow> expr \<Rightarrow> expr list \<Rightarrow> unit M" where
  "solve_for S e free =
     bind (lift_sum (eq_sides e)) (\<lambda>sides.
       (case solve S (build S Sub (fst sides) (snd sides)) (free ! 0) of
          Inr solutions \<Rightarrow>
            (if length solutions = 1
             then bind (lift_sum (truth (solutions ! 0))) (\<lambda>t.
                    if t \<and> CHR ''/'' \<notin> set (str S (solutions ! 0))
                    then bind (find_rep (solutions ! 0)) (\<lambda>new_var.
                           modify (\<lambda>self. self\<lparr>replacements :=
                             AList.update (free ! 0) new_var (replacements self)\<rparr>))
                    else ret ())
             else ret ())
        | Inl NotImplementedError \<Rightarrow> mod_fallback S e (fst sides) (snd sides)
        | Inl err \<Rightarrow> raise err))"

definition evaluate_eq :: "sympy \<Rightarrow> expr \<Rightarrow> expr M" where
  "evaluate_eq S e =
     bind (size_hint S e) (\<lambda>concrete_val.
     bind (modify (\<lambda>self. self\<lparr>guards := guards self @ [(e, concrete_val)]\<rparr>)) (\<lambda>u.
     bind (lift_sum (truth concrete_val)) (\<lambda>t.
       if \<not> t then ret concrete_val
       else if \<not> length (free_symbols e) > 0 then raise AssertionError
       else if length (free_symbols e) \<in> {1, 2, 3}
       then bind (sorted_free S (free_symbols e)) (\<lambda>free.
            bind (solve_for S e free) (\<lambda>u. ret concrete_val))
       else ret concrete_val)))"

text \<open>
  \<open>evaluate_expr\<close>. Its \<open>except\<close> clause prints, stops in the debugger and raises the
  exception again: an exception of the body is the exception of the method.
\<close>

definition evaluate_expr :: "sympy \<Rightarrow> expr \<Rightarrow> expr M" where
  "evaluate_expr S e =
     (if length (free_symbols e) = 0 then ret e
      else bind (simplify S e) (\<lambda>e'.
           bind (maybe_evaluate_static S e') (\<lambda>static_expr.
             (case static_expr of
                Some v \<Rightarrow> ret v
              | None \<Rightarrow>
                  (case e' of
                     Op Eq l r \<Rightarrow> evaluate_eq S e'
                   | _ \<Rightarrow>
                       bind (size_hint S e') (\<lambda>concrete_val.
                       bind (modify (\<lambda>self. self\<lparr>guards := guards self @ [(e', concrete_val)]\<rparr>)) (\<lambda>u.
                         ret concrete_val)))))))"

definition int_of :: "expr \<Rightarrow> error + int" where
  "int_of e = (case e of Integer n \<Rightarrow> Inr n | _ \<Rightarrow> Inl TypeError)"

definition guard_int :: "sympy \<Rightarrow> PySymInt \<Rightarrow> int M" where
  "guard_int S self_int = bind (evaluate_expr S (expr self_int)) (\<lambda>r. lift_sum (int_of r))"

definition PySymInt_bool :: "sympy \<Rightarrow> PySymInt \<Rightarrow> bool M" where
  "PySymInt_bool S self_int = bind (evaluate_expr S (expr self_int)) (\<lambda>r. lift_sum (truth r))"

fun all_guards :: "sympy \<Rightarrow> (expr \<times> expr) list \<Rightarrow> (expr \<times> expr) list \<Rightarrow> bool partial" where
  "all_guards S env [] = ok True"
| "all_guards S env (gv # gs) =
     bindP (xreplace S env (fst gv)) (\<lambda>r. if r = snd gv then all_guards S env gs else ok False)"

definition evaluate_guards_for_args :: "sympy \<Rightarrow> bool \<Rightarrow> 'a pytree list \<Rightarrow> bool M" where
  "evaluate_guards_for_args S has args self =
     (let env = [] in
      case call_create_shapes_for_args has (Node args) [(''var_to_val'', env)] self of
        (Inl err, self') \<Rightarrow> Some (Inl err, self')
      | (Inr u, self') \<Rightarrow> lift (all_guards S env (guards self')) self')"

subsection \<open>Sequences of public operations\<close>

datatype operation =
    Create_symint string int
  | Evaluate_expr expr
  | Evaluate_eq expr
  | Simplify expr
  | Guard_int PySymInt
  | Bool PySymInt

text \<open>
  The environment after an operation, whether it returned or raised (a caller can catch the
  exception and go on); \<open>None\<close> when the operation does not come back.
\<close>

definition step :: "sympy \<Rightarrow> bool \<Rightarrow> operation \<Rightarrow> ShapeEnv \<Rightarrow> ShapeEnv option" where
  "step S has oper self =
     (case oper of
        Create_symint name val \<Rightarrow> Some (snd (create_symint has name val self))
      | Evaluate_expr e \<Rightarrow> map_option snd (evaluate_expr S e self)
      | Evaluate_eq e \<Rightarrow> map_option snd (evaluate_eq S e self)
      | Simplify e \<Rightarrow> map_option snd (simplify S e self)
      | Guard_int p \<Rightarrow> map_option snd (guard_int S p self)
      | Bool p \<Rightarrow> map_option snd (PySymInt_bool S p self))"

fun run :: "sympy \<Rightarrow> bool \<Rightarrow> operation list \<Rightarrow> ShapeEnv \<Rightarrow> ShapeEnv option" where
  "run S has [] self = Some self"
| "run S has (oper # opers) self =
     (case step S has oper self of None \<Rightarrow> None | Some self' \<Rightarrow> run S has opers self')"

section \<open>An instance of the algebra for closed examples\<close>

text \<open>
  The closed examples below need values of the library's functions at their inputs.
  \<open>algebra\<close> gives them on a small fragment, where it does what the library does: the
  operators evaluate on two integer literals and \<open>x - 0\<close> is \<open>x\<close>, \<open>expand\<close> and \<open>simplify\<close>
  leave the expressions of the examples as they are, a symbol and a number have the
  greatest common divisor 1, \<open>solve\<close> solves \<open>x - r = 0\<close> for \<open>x\<close> when \<open>r\<close> does not contain
  \<open>x\<close>, solves \<open>t = 0\<close> for the term \<open>t\<close> itself, and has no algorithm otherwise, and the
  text of an expression contains a slash when the expression contains a quotient.
\<close>

definition fold_int :: "sym_op \<Rightarrow> int \<Rightarrow> int \<Rightarrow> expr" where
  "fold_int f x y =
     (case f of
        Add \<Rightarrow> Integer (x + y)
      | Sub \<Rightarrow> Integer (x - y)
      | Mul \<Rightarrow> Integer (x * y)
      | TrueDiv \<Rightarrow> (if y \<noteq> 0 \<and> y dvd x then Integer (x div y) else Op TrueDiv (Integer x) (Integer y))
      | Mod \<Rightarrow> (if y \<noteq> 0 then Integer (x mod y) else Op Mod (Integer x) (Integer y))
      | Eq \<Rightarrow> (if x = y then BooleanTrue else BooleanFalse)
      | Gt \<Rightarrow> (if x > y then BooleanTrue else BooleanFalse)
      | Lt \<Rightarrow> (if x < y then BooleanTrue else BooleanFalse)
      | Le \<Rightarrow> (if x \<le> y then BooleanTrue else BooleanFalse)
      | Ge \<Rightarrow> (if x \<ge> y then BooleanTrue else BooleanFalse))"

definition algebra_build :: "sym_op \<Rightarrow> expr \<Rightarrow> expr \<Rightarrow> expr" where
  "algebra_build f a b =
     (case (a, b) of
        (Integer x, Integer y) \<Rightarrow> fold_int f x y
      | _ \<Rightarrow> (if f = Sub \<and> b = Integer 0 then a else Op f a b))"

definition algebra_solve :: "expr \<Rightarrow> expr \<Rightarrow> error + expr list" where
  "algebra_solve e x =
     (if e = x then Inr [Integer 0]
      else (case e of
              Op Sub l r \<Rightarrow>
                (if l = x \<and> x \<notin> set (subterms r) then Inr [r] else Inl NotImplementedError)
            | _ \<Rightarrow> Inl NotImplementedError))"

definition algebra_str :: "expr \<Rightarrow> string" where
  "algebra_str e = (if \<exists>t \<in> set (subterms e). (case t of Op TrueDiv a b \<Rightarrow> True | _ \<Rightarrow> False)
                    then ''/'' else [])"

definition algebra :: sympy where
  "algebra = \<lparr>build = algebra_build, expand = (\<lambda>e. e), sympy_gcd = (\<lambda>a b. Integer 1),
              simplify_expr = (\<lambda>e. e), solve = algebra_solve, str = algebra_str\<rparr>"

section \<open>Functions used to state the properties\<close>

text \<open>
  What \<open>create_symint\<close> returns for the dimension \<open>idx\<close>, of size \<open>sz\<close>, of the tensor
  numbered \<open>arg_cnt\<close>, and the number of tensor leaves before position \<open>k\<close>.
\<close>

definition symint_for :: "nat \<Rightarrow> nat \<Rightarrow> nat \<Rightarrow> int \<Rightarrow> symint" where
  "symint_for eid arg_cnt idx sz =
     (if sz = 0 \<or> sz = 1 then Literal sz
      else SymIntNode \<lparr>expr = Symbol (symbol_name arg_cnt idx), shape_env = eid, constant_of = None\<rparr>)"

definition is_tensor :: "'a leaf \<Rightarrow> bool" where
  "is_tensor x = (case x of Tensor t \<Rightarrow> True | NonTensor v \<Rightarrow> False)"

definition tensors_before :: "nat \<Rightarrow> 'a leaf list \<Rightarrow> nat" where
  "tensors_before k xs = length (filter is_tensor (take k xs))"


text \<open>
  Examples: the text of a mode object; no mode entered; handlers that answer with the number of their mode, except
  that the handler of mode 2 first multiplies a symbolic scalar by 3 and returns what that
  operation gives; a tensor that occurs twice in its arguments.
\<close>

definition mode_text :: "mode \<Rightarrow> string" where
  "mode_text m = ''<SymDispatchMode object>''"

definition no_mode :: dispatch where
  "no_mode = \<lparr>SYM_FUNCTION_MODE = None, inner_mode = (\<lambda>m. None)\<rparr>"

definition scalar_s0 :: PySymInt where
  "scalar_s0 = \<lparr>expr = Symbol ''s0'', shape_env = 0, constant_of = None\<rparr>"

definition answer_mode :: "unit handlers" where
  "answer_mode m fn args w = Some (Inr (VInt (int m)), w)"

definition nesting_handlers :: "unit handlers" where
  "nesting_handlers m fn args w =
     (if m = 2 then magic_impl algebra answer_mode ''mul'' (native Mul) scalar_s0 (IntOperand 3) w
      else answer_mode m fn args w)"

definition tensor_2x3 :: tensor where
  "tensor_2x3 = \<lparr>tensor_id = 7, shape = [2, 3]\<rparr>"

definition twice :: "unit pytree" where
  "twice = Node [Leaf (Tensor tensor_2x3), Node [Leaf (Tensor tensor_2x3)]]"

section \<open>Properties of FloorDiv\<close>

text \<open>
  Claim C6. For concrete integers \<open>a\<close> and \<open>b\<close> with \<open>b \<noteq> 0\<close>, constructing
  \<open>FloorDiv(a, b)\<close> returns at once the integer literal \<open>\<lfloor>a / b\<rfloor>\<close>, the floor of the
  exact quotient (rounding toward negative infinity, also for operands of mixed signs), and
  the result is no \<open>FloorDiv\<close> node.
\<close>

theorem FloorDiv_concrete_floor:
  "b \<noteq> 0 \<Longrightarrow> FloorDiv_new S (Integer a) (Integer b) = Some (Inr (Integer \<lfloor>real_of_int a / real_of_int b\<rfloor>))"
proof -
  assume b: "b \<noteq> 0"
  have fl: "\<lfloor>real_of_int a / real_of_int b\<rfloor> = a div b"
    by (rule floor_divide_of_int_eq)
  show ?thesis
  proof (cases "a = 0")
    case True
    then show ?thesis by (subst FloorDiv_new.simps) (simp add: fl)
  next
    case a: False
    show ?thesis
    proof (cases "b = 1")
      case True
      then show ?thesis using a by (subst FloorDiv_new.simps) (simp add: fl)
    next
      case False
      then show ?thesis using a b
        by (subst FloorDiv_new.simps) (simp add: fl Integer_floordiv_def ok_def)
    qed
  qed
qed

theorem FloorDiv_concrete_floor_witness:
  "(2::int) \<noteq> 0 \<and> FloorDiv_new algebra (Integer (- 7)) (Integer 2) = Some (Inr (Integer (- 4)))"
proof -
  have "\<lfloor>real_of_int (- 7) / real_of_int 2\<rfloor> = (- 4 :: int)"
    by (simp add: floor_divide_of_int_eq [of "- 7" 2, simplified])
  then show ?thesis
    using FloorDiv_concrete_floor [of 2 algebra "- 7"] by simp
qed

text \<open>
  Claim C7. \<open>FloorDiv(0, d)\<close> is \<open>0\<close> for every divisor \<open>d\<close> (a nonzero one in particular),
  and \<open>FloorDiv(x, 1)\<close> is \<open>x\<close> for every base \<open>x\<close>.
\<close>

theorem FloorDiv_zero_and_one:
  "FloorDiv_new S (Integer 0) d = Some (Inr (Integer 0)) \<and>
   FloorDiv_new S x (Integer 1) = Some (Inr x)"
  by (subst FloorDiv_new.simps, subst (2) FloorDiv_new.simps) simp

section \<open>Properties of the dispatch modes and the operator methods\<close>

lemma dispatch_basic:
  "SYM_FUNCTION_MODE st = Some m \<Longrightarrow> inner_mode st m = Some i \<Longrightarrow>
      handle_sym_dispatch H fn args st =
        (case H m fn args (st\<lparr>SYM_FUNCTION_MODE := i\<rparr>) of
           None \<Rightarrow> None
         | Some (r, st') \<Rightarrow> Some (r, st'\<lparr>SYM_FUNCTION_MODE := Some m\<rparr>))"
  by (simp add: handle_sym_dispatch_def)

lemma magic_dispatches:
  "SYM_FUNCTION_MODE st = Some m \<Longrightarrow>
     magic_impl S H name b self other st =
        handle_sym_dispatch H (Operator name) [SymOperand self, other] st"
  by (simp add: magic_impl_def)

lemma dispatch_nested:
  assumes "SYM_FUNCTION_MODE st = Some m2" "inner_mode st m2 = Some (Some m1)"
    and "inner_mode st m1 = Some i1"
    and H2: "\<forall>w. SYM_FUNCTION_MODE w = Some m1 \<and> inner_mode w = inner_mode st \<longrightarrow>
          H m2 fn args w = magic_impl S H name' b' self' other' w"
  shows "handle_sym_dispatch H fn args st =
        (case H m1 (Operator name') [SymOperand self', other'] (st\<lparr>SYM_FUNCTION_MODE := i1\<rparr>) of
           None \<Rightarrow> None
         | Some (r, st') \<Rightarrow> Some (r, st'\<lparr>SYM_FUNCTION_MODE := Some m2\<rparr>))"
proof -
  let ?w = "st\<lparr>SYM_FUNCTION_MODE := Some m1\<rparr>"
  have w: "SYM_FUNCTION_MODE ?w = Some m1 \<and> inner_mode ?w = inner_mode st" by simp
  have "H m2 fn args ?w = magic_impl S H name' b' self' other' ?w"
    using H2 w by blast
  also have "\<dots> = handle_sym_dispatch H (Operator name') [SymOperand self', other'] ?w"
    by (rule magic_dispatches [of _ m1]) simp
  also have "\<dots> =
        (case H m1 (Operator name') [SymOperand self', other'] (st\<lparr>SYM_FUNCTION_MODE := i1\<rparr>) of
           None \<Rightarrow> None
         | Some (r, st') \<Rightarrow> Some (r, st'\<lparr>SYM_FUNCTION_MODE := Some m1\<rparr>))"
    using assms(3) by (simp add: dispatch_basic [of _ m1 i1])
  finally have inner_call: "H m2 fn args ?w =
        (case H m1 (Operator name') [SymOperand self', other'] (st\<lparr>SYM_FUNCTION_MODE := i1\<rparr>) of
           None \<Rightarrow> None
         | Some (r, st') \<Rightarrow> Some (r, st'\<lparr>SYM_FUNCTION_MODE := Some m1\<rparr>))" .
  show ?thesis
    unfolding dispatch_basic [OF assms(1) assms(2)] inner_call
    by (simp split: option.splits prod.splits)
qed

text \<open>
  Claim C8. When a mode \<open>m\<close> is active, an operator method of a symbolic scalar hands the
  operation to \<open>_handle_sym_dispatch\<close>, which calls the handler of \<open>m\<close> and no other; the
  handler runs in a state whose active-mode slot holds the saved inner mode of \<open>m\<close>, and
  whatever the handler returns or raises, the slot holds \<open>m\<close> again afterwards. So when the
  handler of \<open>m\<close> itself performs an operation on a symbolic scalar and the inner mode of
  \<open>m\<close> is a mode \<open>m1\<close>, that operation is answered by the handler of \<open>m1\<close>, run with the
  inner mode of \<open>m1\<close> in the slot, and not by the handler of \<open>m\<close> again.
\<close>

theorem dispatch_routes_to_active_then_inner:
  "(SYM_FUNCTION_MODE st = Some m \<and> inner_mode st m = Some i \<longrightarrow>
      magic_impl S H name b self other st =
        handle_sym_dispatch H (Operator name) [SymOperand self, other] st \<and>
      handle_sym_dispatch H fn args st =
        (case H m fn args (st\<lparr>SYM_FUNCTION_MODE := i\<rparr>) of
           None \<Rightarrow> None
         | Some (r, st') \<Rightarrow> Some (r, st'\<lparr>SYM_FUNCTION_MODE := Some m\<rparr>))) \<and>
   (SYM_FUNCTION_MODE st = Some m \<and> inner_mode st m = Some (Some m1) \<and>
    inner_mode st m1 = Some i1 \<and>
    (\<forall>w. SYM_FUNCTION_MODE w = Some m1 \<and> inner_mode w = inner_mode st \<longrightarrow>
          H m fn args w = magic_impl S H name' b' self' other' w) \<longrightarrow>
      handle_sym_dispatch H fn args st =
        (case H m1 (Operator name') [SymOperand self', other'] (st\<lparr>SYM_FUNCTION_MODE := i1\<rparr>) of
           None \<Rightarrow> None
         | Some (r, st') \<Rightarrow> Some (r, st'\<lparr>SYM_FUNCTION_MODE := Some m\<rparr>)))"
proof (intro conjI impI)
  assume "SYM_FUNCTION_MODE st = Some m \<and> inner_mode st m = Some i"
  then show "magic_impl S H name b self other st =
        handle_sym_dispatch H (Operator name) [SymOperand self, other] st"
    by (simp add: magic_dispatches)
next
  assume "SYM_FUNCTION_MODE st = Some m \<and> inner_mode st m = Some i"
  then show "handle_sym_dispatch H fn args st =
        (case H m fn args (st\<lparr>SYM_FUNCTION_MODE := i\<rparr>) of
           None \<Rightarrow> None
         | Some (r, st') \<Rightarrow> Some (r, st'\<lparr>SYM_FUNCTION_MODE := Some m\<rparr>))"
    by (simp add: dispatch_basic)
next
  assume a: "SYM_FUNCTION_MODE st = Some m \<and> inner_mode st m = Some (Some m1) \<and>
    inner_mode st m1 = Some i1 \<and>
    (\<forall>w. SYM_FUNCTION_MODE w = Some m1 \<and> inner_mode w = inner_mode st \<longrightarrow>
          H m fn args w = magic_impl S H name' b' self' other' w)"
  show "handle_sym_dispatch H fn args st =
        (case H m1 (Operator name') [SymOperand self', other'] (st\<lparr>SYM_FUNCTION_MODE := i1\<rparr>) of
           None \<Rightarrow> None
         | Some (r, st') \<Rightarrow> Some (r, st'\<lparr>SYM_FUNCTION_MODE := Some m\<rparr>))"
    by (rule dispatch_nested [where S = S and b' = b']) (use a in blast)+
qed

lemma two_modes_entered:
  "snd (enter mode_text 2 (snd (enter mode_text 1 no_mode))) =
     \<lparr>SYM_FUNCTION_MODE = Some 2, inner_mode = (\<lambda>m. None)(1 \<mapsto> None, 2 \<mapsto> Some 1)\<rparr>"
  by (simp add: enter_def no_mode_def)

lemma nesting_handlers_inner:
  "SYM_FUNCTION_MODE w = Some 1 \<Longrightarrow>
   nesting_handlers 2 fn args w =
     magic_impl algebra nesting_handlers ''mul'' (native Mul) scalar_s0 (IntOperand 3) w"
  by (simp add: nesting_handlers_def magic_impl_def handle_sym_dispatch_def
      split: option.splits)

theorem dispatch_routes_to_active_then_inner_witness:
  "SYM_FUNCTION_MODE (snd (enter mode_text 2 (snd (enter mode_text 1 no_mode)))) = Some 2 \<and>
   inner_mode (snd (enter mode_text 2 (snd (enter mode_text 1 no_mode)))) 2 = Some (Some 1) \<and>
   inner_mode (snd (enter mode_text 2 (snd (enter mode_text 1 no_mode)))) 1 = Some None \<and>
   handle_sym_dispatch nesting_handlers (Operator ''add'') [SymOperand scalar_s0, IntOperand 1]
       (snd (enter mode_text 2 (snd (enter mode_text 1 no_mode)))) =
     Some (Inr (VInt 1), snd (enter mode_text 2 (snd (enter mode_text 1 no_mode))))"
proof -
  let ?st = "snd (enter mode_text 2 (snd (enter mode_text 1 no_mode)))"
  have h: "SYM_FUNCTION_MODE ?st = Some 2" "inner_mode ?st 2 = Some (Some 1)"
    "inner_mode ?st 1 = Some None"
    by (simp_all add: enter_def no_mode_def)
  have n: "\<forall>w. SYM_FUNCTION_MODE w = Some 1 \<and> inner_mode w = inner_mode ?st \<longrightarrow>
      nesting_handlers 2 (Operator ''add'') [SymOperand scalar_s0, IntOperand 1] w =
        magic_impl algebra nesting_handlers ''mul'' (native Mul) scalar_s0 (IntOperand 3) w"
    using nesting_handlers_inner by blast
  have "handle_sym_dispatch nesting_handlers (Operator ''add'') [SymOperand scalar_s0, IntOperand 1] ?st =
      (case nesting_handlers 1 (Operator ''mul'') [SymOperand scalar_s0, IntOperand 3]
              (?st\<lparr>SYM_FUNCTION_MODE := None\<rparr>) of
         None \<Rightarrow> None
       | Some (r, st') \<Rightarrow> Some (r, st'\<lparr>SYM_FUNCTION_MODE := Some 2\<rparr>))"
    using dispatch_routes_to_active_then_inner
      [of ?st 2 "Some 1" algebra nesting_handlers "''add''" "native Add" scalar_s0 "IntOperand 1"
          "Operator ''add''" "[SymOperand scalar_s0, IntOperand 1]" 1 None
          "''mul''" "native Mul" scalar_s0 "IntOperand 3"]
      h n by blast
  moreover have "nesting_handlers 1 (Operator ''mul'') [SymOperand scalar_s0, IntOperand 3]
              (?st\<lparr>SYM_FUNCTION_MODE := None\<rparr>) = Some (Inr (VInt 1), ?st\<lparr>SYM_FUNCTION_MODE := None\<rparr>)"
    by (simp add: nesting_handlers_def answer_mode_def)
  moreover have "?st\<lparr>SYM_FUNCTION_MODE := None, SYM_FUNCTION_MODE := Some 2\<rparr> = ?st"
    by (simp add: enter_def no_mode_def)
  ultimately show ?thesis
    using h by simp
qed

text \<open>
  Claim C9. The three usage errors are to raise an explicit error. Two do: \<open>int()\<close> of a
  symbolic integer raises \<open>RuntimeError\<close>, and so does entering a mode object that has the
  attribute \<open>inner\<close>, which every mode has from its first entry on, also after its exit.
  The third does not: where the algebra library is not installed, loading the module
  raises \<open>NameError\<close> (at \<open>class FloorDiv(sympy.Function)\<close>), so no environment exists
  whose \<open>create_symint\<close> could raise; a loaded module always has \<open>HAS_SYMPY\<close> true, and
  the guard of \<open>create_symint\<close> is never taken.
\<close>

theorem usage_errors_and_import:
  "PySymInt_int p = Inl (RuntimeError int_error) \<and>
   (inner_mode st m \<noteq> None \<longrightarrow>
      enter str_of m st = (Inl (RuntimeError (str_of m @ already_used)), st)) \<and>
   (fst (enter str_of m st0) = Inr m \<longrightarrow>
      fst (enter str_of m (snd (enter str_of m st0))) =
        Inl (RuntimeError (str_of m @ already_used)) \<and>
      fst (enter str_of m (snd (exit m (snd (enter str_of m st0))))) =
        Inl (RuntimeError (str_of m @ already_used))) \<and>
   import_module False = Inl NameError \<and>
   (import_module installed = Inr has \<longrightarrow> installed \<and> has)"
  by (auto simp: PySymInt_int_def enter_def exit_def import_module_def Let_def split: if_splits)

theorem usage_errors_and_import_witness:
  "inner_mode (snd (enter mode_text 1 no_mode)) 1 \<noteq> None \<and>
   fst (enter mode_text 1 no_mode) = Inr 1 \<and>
   import_module True = Inr True \<and>
   PySymInt_int scalar_s0 = Inl (RuntimeError int_error) \<and>
   fst (enter mode_text 1 (snd (enter mode_text 1 no_mode))) =
     Inl (RuntimeError (''<SymDispatchMode object>'' @ already_used)) \<and>
   fst (enter mode_text 1 (snd (exit 1 (snd (enter mode_text 1 no_mode))))) =
     Inl (RuntimeError (''<SymDispatchMode object>'' @ already_used)) \<and>
   import_module False = Inl NameError"
proof -
  have a: "inner_mode (snd (enter mode_text 1 no_mode)) 1 \<noteq> None"
    and b: "fst (enter mode_text 1 no_mode) = Inr 1"
    and c: "import_module True = Inr True"
    by (simp_all add: enter_def no_mode_def import_module_def)
  show ?thesis
    using a b c usage_errors_and_import
      [of scalar_s0 "snd (enter mode_text 1 no_mode)" 1 mode_text no_mode True True]
    by (simp add: mode_text_def)
qed







section \<open>Properties of symbol creation and of the replay of guards\<close>

text \<open>
  Claim C1. \<open>evaluate_guards_for_args\<close> is to rebind the symbols for fresh arguments and to
  return whether every logged guard holds. Evaluated on the code: every call raises
  \<open>TypeError\<close>, because it passes the keyword \<open>var_to_val\<close> to \<open>create_shapes_for_args\<close>,
  which takes none; no Boolean is returned for any environment and any arguments.
\<close>

theorem evaluate_guards_for_args_raises:
  "evaluate_guards_for_args S has args self = Some (Inl TypeError, self)"
  by (simp add: evaluate_guards_for_args_def call_create_shapes_for_args_def)

declare str_nat.simps [simp del]

lemma str_nat_nonempty: "str_nat n \<noteq> []"
  by (subst str_nat.simps) simp

lemma distinct_digits: "distinct digits" "length digits = 10"
  by (simp_all add: digits_def)

lemma digit_inj: "a < 10 \<Longrightarrow> b < 10 \<Longrightarrow> digits ! a = digits ! b \<Longrightarrow> a = b"
  using distinct_digits by (simp add: nth_eq_iff_index_eq)

lemma str_nat_inj: "str_nat n = str_nat m \<Longrightarrow> n = m"
proof (induction n arbitrary: m rule: less_induct)
  case (less n)
  show ?case
  proof (cases "n < 10")
    case n: True
    show ?thesis
    proof (cases "m < 10")
      case True
      with n less.prems show ?thesis
        by (simp add: str_nat.simps [of n] str_nat.simps [of m] digit_inj)
    next
      case False
      with n less.prems have "[digits ! n] = str_nat (m div 10) @ [digits ! (m mod 10)]"
        by (simp add: str_nat.simps [of n] str_nat.simps [of m])
      then show ?thesis using str_nat_nonempty [of "m div 10"] by (cases "str_nat (m div 10)") auto
    qed
  next
    case n: False
    show ?thesis
    proof (cases "m < 10")
      case True
      with n less.prems have "str_nat (n div 10) @ [digits ! (n mod 10)] = [digits ! m]"
        by (simp add: str_nat.simps [of n] str_nat.simps [of m])
      then show ?thesis using str_nat_nonempty [of "n div 10"] by (cases "str_nat (n div 10)") auto
    next
      case False
      with n less.prems have eq: "str_nat (n div 10) @ [digits ! (n mod 10)] = str_nat (m div 10) @ [digits ! (m mod 10)]"
        by (simp add: str_nat.simps [of n] str_nat.simps [of m])
      then have a: "str_nat (n div 10) = str_nat (m div 10)" and b: "digits ! (n mod 10) = digits ! (m mod 10)"
        by simp_all
      have "n div 10 < n" using n by simp
      then have d: "n div 10 = m div 10" using less.IH a by blast
      have r: "n mod 10 = m mod 10" using b by (intro digit_inj) simp_all
      show ?thesis using d r by (metis div_mult_mod_eq)
    qed
  qed
qed

lemma symbol_name_inj: "symbol_name c idx = symbol_name c' idx \<Longrightarrow> c = c'"
  by (simp add: symbol_name_def str_nat_inj)

lemma create_symint_True:
  "fst (create_symint True name sz self) = Inr (if sz = 0 \<or> sz = 1 then Literal sz
      else SymIntNode \<lparr>expr = Symbol name, shape_env = env_id self, constant_of = None\<rparr>)"
  "env_id (snd (create_symint True name sz self)) = env_id self"
  by (simp_all add: create_symint_def)

lemma create_dims_True:
  "\<exists>ss. fst (create_dims True c i szs self) = Inr ss \<and> length ss = length szs \<and>
        (\<forall>n < length szs. ss ! n = symint_for (env_id self) c (i + n) (szs ! n)) \<and>
        env_id (snd (create_dims True c i szs self)) = env_id self"
proof (induction szs arbitrary: i self)
  case Nil
  then show ?case by simp
next
  case (Cons sz szs)
  obtain s self1 where cs: "create_symint True (symbol_name c i) sz self = (Inr s, self1)"
    and s: "s = symint_for (env_id self) c i sz" and e1: "env_id self1 = env_id self"
    using create_symint_True [of "symbol_name c i" sz self]
    by (cases "create_symint True (symbol_name c i) sz self") (auto simp: symint_for_def)
  from Cons.IH [of "Suc i" self1] obtain ss where
    ss: "fst (create_dims True c (Suc i) szs self1) = Inr ss" "length ss = length szs"
        "\<forall>n < length szs. ss ! n = symint_for (env_id self1) c (Suc i + n) (szs ! n)"
        "env_id (snd (create_dims True c (Suc i) szs self1)) = env_id self1"
    by blast
  obtain self2 where cd: "create_dims True c (Suc i) szs self1 = (Inr ss, self2)"
    using ss(1) by (cases "create_dims True c (Suc i) szs self1") auto
  have "fst (create_dims True c i (sz # szs) self) = Inr (s # ss)"
    and "env_id (snd (create_dims True c i (sz # szs) self)) = env_id self"
    using cs cd ss(4) e1 by simp_all
  moreover have "\<forall>n < length (sz # szs). (s # ss) ! n = symint_for (env_id self) c (i + n) ((sz # szs) ! n)"
    using s ss(3) e1 by (auto simp: nth_Cons split: nat.splits)
  ultimately show ?case using ss(2) by auto
qed

lemma map_create_shape_True:
  "\<exists>outs. fst (map_create_shape True c xs self) = Inr outs \<and> length outs = length xs \<and>
     (\<forall>k < length xs. \<forall>t. xs ! k = Tensor t \<longrightarrow>
        (\<exists>ss. outs ! k = Shape ss \<and> length ss = length (shape t) \<and>
          (\<forall>n < length (shape t).
             ss ! n = symint_for (env_id self) (c + tensors_before k xs) n (shape t ! n)))) \<and>
     env_id (snd (map_create_shape True c xs self)) = env_id self"
proof (induction xs arbitrary: c self)
  case Nil
  then show ?case by simp
next
  case (Cons x xs)
  show ?case
  proof (cases x)
    case (NonTensor v)
    from Cons.IH [of c self] obtain outs where
      o: "fst (map_create_shape True c xs self) = Inr outs" "length outs = length xs"
         "\<forall>k < length xs. \<forall>t. xs ! k = Tensor t \<longrightarrow>
            (\<exists>ss. outs ! k = Shape ss \<and> length ss = length (shape t) \<and>
              (\<forall>n < length (shape t).
                 ss ! n = symint_for (env_id self) (c + tensors_before k xs) n (shape t ! n)))"
         "env_id (snd (map_create_shape True c xs self)) = env_id self"
      by blast
    obtain self2 where m: "map_create_shape True c xs self = (Inr outs, self2)"
      using o(1) by (cases "map_create_shape True c xs self") auto
    have r: "fst (map_create_shape True c (x # xs) self) = Inr (Passthrough v # outs)"
      "env_id (snd (map_create_shape True c (x # xs) self)) = env_id self"
      using NonTensor m o(4) by (simp_all add: create_shape_def)
    have "\<forall>k < length (x # xs). \<forall>t. (x # xs) ! k = Tensor t \<longrightarrow>
        (\<exists>ss. (Passthrough v # outs) ! k = Shape ss \<and> length ss = length (shape t) \<and>
          (\<forall>n < length (shape t).
             ss ! n = symint_for (env_id self) (c + tensors_before k (x # xs)) n (shape t ! n)))"
    proof (intro allI impI)
      fix k t assume k: "k < length (x # xs)" and t: "(x # xs) ! k = Tensor t"
      then obtain k' where k': "k = Suc k'" using NonTensor by (cases k) auto
      have tb: "tensors_before (Suc k') (x # xs) = tensors_before k' xs"
        using NonTensor by (simp add: tensors_before_def is_tensor_def)
      show "\<exists>ss. (Passthrough v # outs) ! k = Shape ss \<and> length ss = length (shape t) \<and>
          (\<forall>n < length (shape t).
             ss ! n = symint_for (env_id self) (c + tensors_before k (x # xs)) n (shape t ! n))"
        using o(3) k t by (simp add: k' tb)
    qed
    with r o(2) show ?thesis by auto
  next
    case (Tensor t0)
    from create_dims_True [of c 0 "shape t0" self] obtain ss0 self1 where
      d: "create_dims True c 0 (shape t0) self = (Inr ss0, self1)" "length ss0 = length (shape t0)"
         "\<forall>n < length (shape t0). ss0 ! n = symint_for (env_id self) c n (shape t0 ! n)"
         "env_id self1 = env_id self"
      by (cases "create_dims True c 0 (shape t0) self") auto
    from Cons.IH [of "c + 1" self1] obtain outs where
      o: "fst (map_create_shape True (c + 1) xs self1) = Inr outs" "length outs = length xs"
         "\<forall>k < length xs. \<forall>t. xs ! k = Tensor t \<longrightarrow>
            (\<exists>ss. outs ! k = Shape ss \<and> length ss = length (shape t) \<and>
              (\<forall>n < length (shape t).
                 ss ! n = symint_for (env_id self1) (c + 1 + tensors_before k xs) n (shape t ! n)))"
         "env_id (snd (map_create_shape True (c + 1) xs self1)) = env_id self1"
      by blast
    obtain self2 where m: "map_create_shape True (c + 1) xs self1 = (Inr outs, self2)"
      using o(1) by (cases "map_create_shape True (c + 1) xs self1") auto
    have r: "fst (map_create_shape True c (x # xs) self) = Inr (Shape ss0 # outs)"
      "env_id (snd (map_create_shape True c (x # xs) self)) = env_id self"
      using Tensor d m o(4) by (simp_all add: create_shape_def)
    have "\<forall>k < length (x # xs). \<forall>t. (x # xs) ! k = Tensor t \<longrightarrow>
        (\<exists>ss. (Shape ss0 # outs) ! k = Shape ss \<and> length ss = length (shape t) \<and>
          (\<forall>n < length (shape t).
             ss ! n = symint_for (env_id self) (c + tensors_before k (x # xs)) n (shape t ! n)))"
    proof (intro allI impI)
      fix k t assume k: "k < length (x # xs)" and t: "(x # xs) ! k = Tensor t"
      show "\<exists>ss. (Shape ss0 # outs) ! k = Shape ss \<and> length ss = length (shape t) \<and>
          (\<forall>n < length (shape t).
             ss ! n = symint_for (env_id self) (c + tensors_before k (x # xs)) n (shape t ! n))"
      proof (cases k)
        case 0
        then show ?thesis using t Tensor d by (simp add: tensors_before_def)
      next
        case (Suc k')
        have tb: "tensors_before (Suc k') (x # xs) = 1 + tensors_before k' xs"
          using Tensor by (simp add: tensors_before_def is_tensor_def)
        show ?thesis using o(3) k t d(4) by (simp add: Suc tb)
      qed
    qed
    with r o(2) show ?thesis by auto
  qed
qed

lemma tensors_before_less:
  "j < k \<Longrightarrow> k \<le> length xs \<Longrightarrow> is_tensor (xs ! j) \<Longrightarrow> tensors_before j xs < tensors_before k xs"
proof -
  assume jk: "j < k" and k: "k \<le> length xs" and t: "is_tensor (xs ! j)"
  have "take k xs = take j xs @ xs ! j # drop (Suc j) (take k xs)"
    using jk k by (metis (no_types, lifting) id_take_nth_drop length_take min.absorb2 nth_take take_take min.strict_order_iff)
  then have "filter is_tensor (take k xs) = filter is_tensor (take j xs) @ xs ! j # filter is_tensor (drop (Suc j) (take k xs))"
    using t by (metis filter.simps(2) filter_append)
  then show ?thesis by (simp add: tensors_before_def)
qed

lemma str_nat_digits: "str_nat 0 = ''0''" "str_nat (Suc 0) = ''1''"
  by (simp_all add: str_nat.simps digits_def)

text \<open>
  Claim C2, as stated, fails: the arguments \<open>twice\<close> hold one tensor object of shape
  \<open>[2, 3]\<close> at two places, and \<open>create_shapes_for_args\<close> returns the symbols
  \<open>s_0[0], s_0[1]\<close> for the first occurrence and the different symbols \<open>s_1[0], s_1[1]\<close>
  for the second.
\<close>

theorem same_tensor_gets_two_symbol_sets:
  "tree_flatten twice = [Tensor tensor_2x3, Tensor tensor_2x3] \<and>
   fst (create_shapes_for_args True twice (ShapeEnv_init 0)) =
     Inr [Shape [SymIntNode \<lparr>expr = Symbol ''s_0[0]'', shape_env = 0, constant_of = None\<rparr>,
                 SymIntNode \<lparr>expr = Symbol ''s_0[1]'', shape_env = 0, constant_of = None\<rparr>],
          Shape [SymIntNode \<lparr>expr = Symbol ''s_1[0]'', shape_env = 0, constant_of = None\<rparr>,
                 SymIntNode \<lparr>expr = Symbol ''s_1[1]'', shape_env = 0, constant_of = None\<rparr>]] \<and>
   Symbol ''s_0[0]'' \<noteq> Symbol ''s_1[0]'' \<and> Symbol ''s_0[1]'' \<noteq> Symbol ''s_1[1]''"
  by (simp add: twice_def tensor_2x3_def create_shapes_for_args_def create_shape_def
      create_symint_def symbol_name_def str_nat_digits ShapeEnv_init_def)

text \<open>
  Claim C2, amended. \<open>create_shapes_for_args\<close> creates one set of per-dimension symbols
  for every tensor leaf of the flattened arguments, named after the number of tensor leaves
  before it, whatever the identity of the tensor: when the same tensor is at the positions
  \<open>j < k\<close>, each of its dimensions of a size other than 0 and 1 gets the symbol
  \<open>s_c[idx]\<close> at \<open>j\<close> and the symbol \<open>s_c'[idx]\<close> at \<open>k\<close>, with \<open>c < c'\<close> the numbers of
  tensor leaves before \<open>j\<close> and before \<open>k\<close>, and the two symbolic scalars differ.
\<close>

theorem tensor_occurrences_get_own_symbols:
  assumes "j < k" and "k < length (tree_flatten args)"
    and "tree_flatten args ! j = Tensor t" and "tree_flatten args ! k = Tensor t"
    and "idx < length (shape t)" and "shape t ! idx \<noteq> 0" and "shape t ! idx \<noteq> 1"
  shows "\<exists>outs sj sk.
     fst (create_shapes_for_args True args self) = Inr outs \<and>
     outs ! j = Shape sj \<and> outs ! k = Shape sk \<and>
     sj ! idx = SymIntNode \<lparr>expr = Symbol (symbol_name (tensors_before j (tree_flatten args)) idx),
                             shape_env = env_id self, constant_of = None\<rparr> \<and>
     sk ! idx = SymIntNode \<lparr>expr = Symbol (symbol_name (tensors_before k (tree_flatten args)) idx),
                             shape_env = env_id self, constant_of = None\<rparr> \<and>
     tensors_before j (tree_flatten args) < tensors_before k (tree_flatten args) \<and>
     sj ! idx \<noteq> sk ! idx"
proof -
  let ?xs = "tree_flatten args"
  from map_create_shape_True [of 0 ?xs self] obtain outs where
    o: "fst (map_create_shape True 0 ?xs self) = Inr outs"
       "\<forall>k < length ?xs. \<forall>t. ?xs ! k = Tensor t \<longrightarrow>
        (\<exists>ss. outs ! k = Shape ss \<and> length ss = length (shape t) \<and>
          (\<forall>n < length (shape t).
             ss ! n = symint_for (env_id self) (0 + tensors_before k ?xs) n (shape t ! n)))"
    by blast
  have j: "j < length ?xs" using assms(1,2) by simp
  from o(2) j assms(3) obtain sj where
    sj: "outs ! j = Shape sj" "\<forall>n < length (shape t).
             sj ! n = symint_for (env_id self) (0 + tensors_before j ?xs) n (shape t ! n)"
    by blast
  from o(2) assms(2,4) obtain sk where
    sk: "outs ! k = Shape sk" "\<forall>n < length (shape t).
             sk ! n = symint_for (env_id self) (0 + tensors_before k ?xs) n (shape t ! n)"
    by blast
  have vj: "sj ! idx = SymIntNode \<lparr>expr = Symbol (symbol_name (tensors_before j ?xs) idx),
                             shape_env = env_id self, constant_of = None\<rparr>"
    using sj(2) assms(5,6,7) by (simp add: symint_for_def)
  have vk: "sk ! idx = SymIntNode \<lparr>expr = Symbol (symbol_name (tensors_before k ?xs) idx),
                             shape_env = env_id self, constant_of = None\<rparr>"
    using sk(2) assms(5,6,7) by (simp add: symint_for_def)
  have lt: "tensors_before j ?xs < tensors_before k ?xs"
    using assms(1,2,3) by (intro tensors_before_less) (simp_all add: is_tensor_def)
  have ne: "sj ! idx \<noteq> sk ! idx"
  proof
    assume "sj ! idx = sk ! idx"
    then have "symbol_name (tensors_before j ?xs) idx = symbol_name (tensors_before k ?xs) idx"
      using vj vk by simp
    then show False using symbol_name_inj lt by fastforce
  qed
  show ?thesis
    using o(1) sj(1) sk(1) vj vk lt ne by (auto simp: create_shapes_for_args_def)
qed

theorem tensor_occurrences_get_own_symbols_witness:
  "(0::nat) < 1 \<and> 1 < length (tree_flatten twice) \<and>
   tree_flatten twice ! 0 = Tensor tensor_2x3 \<and> tree_flatten twice ! 1 = Tensor tensor_2x3 \<and>
   0 < length (shape tensor_2x3) \<and> shape tensor_2x3 ! 0 \<noteq> 0 \<and> shape tensor_2x3 ! 0 \<noteq> 1 \<and>
   (\<exists>outs sj sk.
     fst (create_shapes_for_args True twice (ShapeEnv_init 0)) = Inr outs \<and>
     outs ! 0 = Shape sj \<and> outs ! 1 = Shape sk \<and> sj ! 0 \<noteq> sk ! 0)"
proof -
  have h: "(0::nat) < 1" "1 < length (tree_flatten twice)"
    "tree_flatten twice ! 0 = Tensor tensor_2x3" "tree_flatten twice ! 1 = Tensor tensor_2x3"
    "0 < length (shape tensor_2x3)" "shape tensor_2x3 ! 0 \<noteq> 0" "shape tensor_2x3 ! 0 \<noteq> 1"
    by (simp_all add: twice_def tensor_2x3_def)
  from tensor_occurrences_get_own_symbols [OF h, of "ShapeEnv_init 0"]
  have "\<exists>outs sj sk.
     fst (create_shapes_for_args True twice (ShapeEnv_init 0)) = Inr outs \<and>
     outs ! 0 = Shape sj \<and> outs ! 1 = Shape sk \<and> sj ! 0 \<noteq> sk ! 0"
    by blast
  with h show ?thesis by blast
qed

end
